theory Spec2Isabelle
  imports Main "HOL-Library.Word"
begin

unbundle bit_operations_syntax

section \<open>Text and bytes\<close>

text \<open>
  A Python \<open>str\<close> is modelled by its UTF-8 encoding, written as a \<^typ>\<open>string\<close>:
  an ASCII character is one character of the model, any other code point is the two to
  four characters, all from 128 up, of its encoding. Concatenation, equality and
  emptiness of texts are those of their encodings. A \<open>str\<close> with a lone surrogate has
  no UTF-8 encoding and is no text of the model. \<open>bytes\<close> is a list of 8-bit words.
\<close>

type_synonym byte = "8 word"

definition upper_char :: "char \<Rightarrow> char" where
  "upper_char c =
     (let n = (of_char c :: nat) in
      if 97 \<le> n \<and> n \<le> 122 then ''ABCDEFGHIJKLMNOPQRSTUVWXYZ'' ! (n - 97) else c)"

definition is_ascii :: "char \<Rightarrow> bool" where
  "is_ascii c = ((of_char c :: nat) < 128)"

text \<open>
  \<open>str.upper\<close>. On ASCII text it maps the letters \<open>a\<close> to \<open>z\<close> and nothing else. On a
  text with other characters it is the Unicode case mapping of the interpreter (which
  sends \<open>U+00DF\<close> to \<open>SS\<close>, \<open>U+017F\<close> to \<open>S\<close>, ...): that table is not code of the
  connector, and is the parameter \<open>U\<close>, on encoded texts.
\<close>

definition upper :: "(string \<Rightarrow> string) \<Rightarrow> string \<Rightarrow> string" where
  "upper U s = (if list_all is_ascii s then map upper_char s else U s)"

text \<open>\<open>s.encode('utf-8')\<close>: the bytes of the text.\<close>

definition encode_utf8 :: "string \<Rightarrow> byte list" where
  "encode_utf8 s = map (\<lambda>c. of_nat (of_char c)) s"

text \<open>\<open>str(i)\<close> of a Python integer: its decimal digits, with a sign when negative.\<close>

definition digit_char :: "nat \<Rightarrow> char" where
  "digit_char d = ''0123456789'' ! d"

fun str_nat :: "nat \<Rightarrow> string" where
  "str_nat n = (if n < 10 then [digit_char n] else str_nat (n div 10) @ [digit_char (n mod 10)])"

declare str_nat.simps [simp del]

definition str_int :: "int \<Rightarrow> string" where
  "str_int i = (if i < 0 then CHR ''-'' # str_nat (nat (- i)) else str_nat (nat i))"

text \<open>Hexadecimal digits, lower case (\<open>hexdigest\<close>, \<open>\u00xx\<close>) and upper case (\<open>%XX\<close>).\<close>

definition hex_lower :: "nat \<Rightarrow> char" where
  "hex_lower d = ''0123456789abcdef'' ! d"

definition hex_upper :: "nat \<Rightarrow> char" where
  "hex_upper d = ''0123456789ABCDEF'' ! d"

definition hex_byte :: "byte \<Rightarrow> string" where
  "hex_byte b = [hex_lower (unat b div 16), hex_lower (unat b mod 16)]"

text \<open>\<open>bytes.hex()\<close>, which is what \<open>hexdigest()\<close> returns of the digest.\<close>

definition hexdigest :: "byte list \<Rightarrow> string" where
  "hexdigest bs = concat (map hex_byte bs)"

section \<open>The library's HMAC-SHA256\<close>

text \<open>
  \<open>hmac.new(key, msg, hashlib.sha256)\<close> is Python's standard library, not code of the
  connector. It is modelled from its standards, FIPS 180-4 (SHA-256) and RFC 2104
  (HMAC), on 32-bit words. The round constants are the first 32 bits of the fractional
  parts of the cube roots of the first 64 primes, the initial hash value those of the
  square roots of the first 8 primes.
\<close>

type_synonym word32 = "32 word"

definition K256 :: "word32 list" where
  "K256 =
    [1116352408, 1899447441, 3049323471, 3921009573, 961987163, 1508970993, 2453635748,
     2870763221, 3624381080, 310598401, 607225278, 1426881987, 1925078388, 2162078206,
     2614888103, 3248222580, 3835390401, 4022224774, 264347078, 604807628, 770255983,
     1249150122, 1555081692, 1996064986, 2554220882, 2821834349, 2952996808, 3210313671,
     3336571891, 3584528711, 113926993, 338241895, 666307205, 773529912, 1294757372,
     1396182291, 1695183700, 1986661051, 2177026350, 2456956037, 2730485921, 2820302411,
     3259730800, 3345764771, 3516065817, 3600352804, 4094571909, 275423344, 430227734,
     506948616, 659060556, 883997877, 958139571, 1322822218, 1537002063, 1747873779,
     1955562222, 2024104815, 2227730452, 2361852424, 2428436474, 2756734187, 3204031479,
     3329325298]"

definition H256 :: "word32 list" where
  "H256 =
    [1779033703, 3144134277, 1013904242, 2773480762, 1359893119, 2600822924, 528734635,
     1541459225]"

definition Ch :: "word32 \<Rightarrow> word32 \<Rightarrow> word32 \<Rightarrow> word32" where
  "Ch x y z = (x AND y) XOR (NOT x AND z)"

definition Maj :: "word32 \<Rightarrow> word32 \<Rightarrow> word32 \<Rightarrow> word32" where
  "Maj x y z = (x AND y) XOR (x AND z) XOR (y AND z)"

definition big_sigma0 :: "word32 \<Rightarrow> word32" where
  "big_sigma0 x = word_rotr 2 x XOR word_rotr 13 x XOR word_rotr 22 x"

definition big_sigma1 :: "word32 \<Rightarrow> word32" where
  "big_sigma1 x = word_rotr 6 x XOR word_rotr 11 x XOR word_rotr 25 x"

definition small_sigma0 :: "word32 \<Rightarrow> word32" where
  "small_sigma0 x = word_rotr 7 x XOR word_rotr 18 x XOR drop_bit 3 x"

definition small_sigma1 :: "word32 \<Rightarrow> word32" where
  "small_sigma1 x = word_rotr 17 x XOR word_rotr 19 x XOR drop_bit 10 x"

text \<open>Padding: a one bit, zeros up to 56 modulo 64 bytes, the bit length on 8 bytes.\<close>

definition be64 :: "nat \<Rightarrow> byte list" where
  "be64 n = map (\<lambda>i. of_nat (n div 256 ^ (7 - i))) [0..<8]"

definition pad :: "byte list \<Rightarrow> byte list" where
  "pad m = m @ [128] @ replicate ((119 - length m mod 64) mod 64) 0 @ be64 (8 * length m)"

definition be32 :: "byte list \<Rightarrow> word32" where
  "be32 bs = foldl (\<lambda>w b. push_bit 8 w OR ucast b) 0 bs"

definition be32_bytes :: "word32 \<Rightarrow> byte list" where
  "be32_bytes w = map (\<lambda>i. ucast (drop_bit (8 * (3 - i)) w)) [0..<4]"

fun chunks :: "nat \<Rightarrow> 'a list \<Rightarrow> 'a list list" where
  "chunks n xs = (if n = 0 \<or> xs = [] then [] else take n xs # chunks n (drop n xs))"

declare chunks.simps [simp del]

text \<open>The message schedule: 16 words of the block, extended to 64.\<close>

fun schedule :: "nat \<Rightarrow> word32 list \<Rightarrow> word32 list" where
  "schedule 0 w = w"
| "schedule (Suc k) w =
     schedule k
       (w @ [small_sigma1 (w ! (length w - 2)) + w ! (length w - 7) +
             small_sigma0 (w ! (length w - 15)) + w ! (length w - 16)])"

definition round256 :: "word32 list \<Rightarrow> word32 \<times> word32 \<Rightarrow> word32 list" where
  "round256 s kw =
     (case s of
        [a, b, c, d, e, f, g, h] \<Rightarrow>
          (let t1 = h + big_sigma1 e + Ch e f g + fst kw + snd kw;
               t2 = big_sigma0 a + Maj a b c
           in [t1 + t2, a, b, c, d + t1, e, f, g])
      | _ \<Rightarrow> s)"

definition compress :: "word32 list \<Rightarrow> byte list \<Rightarrow> word32 list" where
  "compress h block =
     map2 (+) h (foldl round256 h (zip K256 (schedule 48 (map be32 (chunks 4 block)))))"

definition sha256 :: "byte list \<Rightarrow> byte list" where
  "sha256 m = concat (map be32_bytes (foldl compress H256 (chunks 64 (pad m))))"

text \<open>RFC 2104 with the block size of SHA-256, 64 bytes.\<close>

definition hmac_sha256 :: "byte list \<Rightarrow> byte list \<Rightarrow> byte list" where
  "hmac_sha256 key msg =
     (let k0 = (if 64 < length key then sha256 key else key);
          k = k0 @ replicate (64 - length k0) 0
      in sha256 (map (\<lambda>b. b XOR 92) k @ sha256 (map (\<lambda>b. b XOR 54) k @ msg)))"

section \<open>Python values and the library's serialisers\<close>

text \<open>
  The values the endpoints' fields carry (symbol, volume, side, type, price, order id,
  limit, symbols) are scalars. A float is a finite float, given by its \<open>repr\<close>, which
  is what both \<open>str\<close> and \<open>json.dumps\<close> print of it. A \<open>dict\<close> whose order matters
  (a request body) is an association list in insertion order; one that is only looked
  up (the caller's argument) is a map.
\<close>

datatype pyval = PNone | PBool bool | PInt int | PFloat string | PStr string

type_synonym pydict = "(string \<times> pyval) list"

fun py_str :: "pyval \<Rightarrow> string" where
  "py_str PNone = ''None''"
| "py_str (PBool b) = (if b then ''True'' else ''False'')"
| "py_str (PInt i) = str_int i"
| "py_str (PFloat r) = r"
| "py_str (PStr s) = s"

fun join :: "string \<Rightarrow> string list \<Rightarrow> string" where
  "join sep [] = []"
| "join sep [x] = x"
| "join sep (x # y # ys) = x @ sep @ join sep (y # ys)"

text \<open>
  \<open>json.dumps\<close> with its defaults: \<open>ensure_ascii\<close>, separators \<open>", "\<close> and \<open>": "\<close>,
  keys in insertion order. An ASCII character is escaped or kept; any other code point
  is written \<open>\uxxxx\<close>, as a surrogate pair from \<open>U+10000\<close> up, so the encoding is
  decoded first. The empty results of \<open>json_escape\<close> are for a text cut inside a code
  point, which is the encoding of no \<open>str\<close>.
\<close>

definition json_escape_char :: "char \<Rightarrow> string" where
  "json_escape_char c =
     (let n = (of_char c :: nat) in
      if n = 34 then [CHR 0x5C, CHR 0x22]
      else if n = 92 then [CHR 0x5C, CHR 0x5C]
      else if n = 10 then [CHR 0x5C, CHR ''n'']
      else if n = 13 then [CHR 0x5C, CHR ''r'']
      else if n = 9 then [CHR 0x5C, CHR ''t'']
      else if n = 8 then [CHR 0x5C, CHR ''b'']
      else if n = 12 then [CHR 0x5C, CHR ''f'']
      else if 32 \<le> n \<and> n \<le> 126 then [c]
      else [CHR 0x5C, CHR ''u'', CHR ''0'', CHR ''0'', hex_lower (n div 16), hex_lower (n mod 16)])"

definition json_u4 :: "nat \<Rightarrow> string" where
  "json_u4 n =
     [CHR 0x5C, CHR ''u'', hex_lower (n div 4096 mod 16), hex_lower (n div 256 mod 16),
      hex_lower (n div 16 mod 16), hex_lower (n mod 16)]"

definition json_escape_code_point :: "nat \<Rightarrow> string" where
  "json_escape_code_point n =
     (if n < 65536 then json_u4 n
      else json_u4 (55296 + (n - 65536) div 1024) @ json_u4 (56320 + (n - 65536) mod 1024))"

fun json_escape :: "string \<Rightarrow> string" where
  "json_escape [] = []"
| "json_escape (c # cs) =
     (let n = (of_char c :: nat) in
      if n < 128 then json_escape_char c @ json_escape cs
      else if n < 224 then
        (case cs of
           c1 # r \<Rightarrow>
             json_escape_code_point (n mod 32 * 64 + of_char c1 mod 64) @ json_escape r
         | _ \<Rightarrow> [])
      else if n < 240 then
        (case cs of
           c1 # c2 # r \<Rightarrow>
             json_escape_code_point
               (n mod 16 * 4096 + of_char c1 mod 64 * 64 + of_char c2 mod 64) @
             json_escape r
         | _ \<Rightarrow> [])
      else
        (case cs of
           c1 # c2 # c3 # r \<Rightarrow>
             json_escape_code_point
               (n mod 8 * 262144 + of_char c1 mod 64 * 4096 + of_char c2 mod 64 * 64 +
                of_char c3 mod 64) @
             json_escape r
         | _ \<Rightarrow> []))"

definition json_str :: "string \<Rightarrow> string" where
  "json_str s = [CHR 0x22] @ json_escape s @ [CHR 0x22]"

fun json_val :: "pyval \<Rightarrow> string" where
  "json_val PNone = ''null''"
| "json_val (PBool b) = (if b then ''true'' else ''false'')"
| "json_val (PInt i) = str_int i"
| "json_val (PFloat r) = r"
| "json_val (PStr s) = json_str s"

definition json_dumps :: "pydict \<Rightarrow> string" where
  "json_dumps d =
     ''{'' @ join '', '' (map (\<lambda>(k, v). json_str k @ '': '' @ json_val v) d) @ ''}''"

text \<open>
  \<open>urllib.parse.urlencode\<close> of a mapping: \<open>quote_plus(str(k)) + '=' + quote_plus(str(v))\<close>
  for each item, joined by \<open>&\<close>. \<open>quote_plus\<close> keeps letters, digits and \<open>_.-~\<close>, writes
  a space as \<open>+\<close> and every other byte of the UTF-8 encoding as \<open>%XX\<close>.
\<close>

definition always_safe :: "char \<Rightarrow> bool" where
  "always_safe c =
     (let n = (of_char c :: nat) in
      (65 \<le> n \<and> n \<le> 90) \<or> (97 \<le> n \<and> n \<le> 122) \<or> (48 \<le> n \<and> n \<le> 57) \<or>
      c = CHR ''_'' \<or> c = CHR ''.'' \<or> c = CHR ''-'' \<or> c = CHR ''~'')"

definition percent_byte :: "byte \<Rightarrow> string" where
  "percent_byte b = [CHR ''%'', hex_upper (unat b div 16), hex_upper (unat b mod 16)]"

definition quote_plus_char :: "char \<Rightarrow> string" where
  "quote_plus_char c =
     (if c = CHR '' '' then ''+''
      else if always_safe c then [c]
      else percent_byte (of_nat (of_char c)))"

definition quote_plus :: "string \<Rightarrow> string" where
  "quote_plus s = concat (map quote_plus_char s)"

definition urlencode :: "pydict \<Rightarrow> string" where
  "urlencode query =
     join ''&'' (map (\<lambda>(k, v). quote_plus k @ ''='' @ quote_plus (py_str v)) query)"

section \<open>SignatureGenerator\<close>

text \<open>
  The constructor encodes the secret once. \<open>api_key\<close> is stored and never read by
  \<open>generate_signature\<close>.
\<close>

record SignatureGenerator =
  sg_api_key :: string
  sg_api_secret :: "byte list"

definition SignatureGenerator_init :: "string \<Rightarrow> string \<Rightarrow> SignatureGenerator" where
  "SignatureGenerator_init api_key api_secret =
     \<lparr>sg_api_key = api_key, sg_api_secret = encode_utf8 api_secret\<rparr>"

text \<open>The \<open>body\<close> argument, \<open>Optional[Union[Dict, str]]\<close>, and its truth value.\<close>

datatype body = NoBody | DictBody pydict | StrBody string

fun truthy :: "body \<Rightarrow> bool" where
  "truthy NoBody = False"
| "truthy (DictBody d) = (d \<noteq> [])"
| "truthy (StrBody s) = (s \<noteq> [])"

record signature_data =
  signature :: string
  timestamp :: string

text \<open>
  \<open>generate_signature\<close>. The clock is an input: \<open>now\<close> is the value of
  \<open>int(time.time() * 1000)\<close> when the function runs; so is the interpreter's case
  mapping \<open>U\<close>. The last case of the inner \<open>case\<close> is not reachable (\<open>None\<close> is not
  truthy).
\<close>

definition generate_signature ::
  "SignatureGenerator \<Rightarrow> (string \<Rightarrow> string) \<Rightarrow> int \<Rightarrow> string \<Rightarrow> string \<Rightarrow> body \<Rightarrow>
   signature_data" where
  "generate_signature self U now method request_path body =
     (let timestamp = str_int now;
          sign_payload = timestamp @ upper U method @ request_path;
          sign_payload =
            (if truthy body \<and> upper U method = ''POST'' then
               (case body of
                  DictBody d \<Rightarrow> sign_payload @ json_dumps d
                | StrBody s \<Rightarrow> sign_payload @ s
                | NoBody \<Rightarrow> sign_payload)
             else sign_payload);
          signature = hexdigest (hmac_sha256 (sg_api_secret self) (encode_utf8 sign_payload))
      in \<lparr>signature = signature, timestamp = timestamp\<rparr>)"

section \<open>send_request\<close>

text \<open>
  The boundary of the model is the call into the \<open>requests\<close> library: a call records
  which of \<open>requests.get\<close> and \<open>requests.post\<close> is called and with what \<open>url\<close>,
  \<open>headers\<close> and \<open>json\<close>. The library puts \<open>json.dumps\<close> of a \<open>json\<close> argument that is
  not \<open>None\<close> on the wire, encoded in UTF-8, also when it is the empty mapping.
\<close>

record http_call =
  call_verb :: string
  call_url :: string
  call_headers :: "(string \<times> string) list"
  call_json :: "pydict option"

definition wire_body :: "http_call \<Rightarrow> byte list option" where
  "wire_body c = map_option (\<lambda>d. encode_utf8 (json_dumps d)) (call_json c)"

text \<open>
  What \<open>response.json()\<close> does: it returns the parsed value; or it raises the library's
  \<open>JSONDecodeError\<close>, which is a \<open>RequestException\<close> (requests 2.27 and later); or it
  raises an exception that is not a \<open>RequestException\<close> (a \<open>ValueError\<close> or
  \<open>RecursionError\<close> of the decoder, and every decoding error before requests 2.27).
  The string is \<open>str(e)\<close>.
\<close>

datatype 'j json_result = Parsed 'j | JSONDecodeError string | OtherJSONError string

text \<open>
  What the library gives back to \<open>requests.get\<close> and \<open>requests.post\<close>: it raises a
  \<open>RequestException\<close> \<open>e\<close> (connection error, timeout, ...), or an exception that is not
  one (a \<open>UnicodeEncodeError\<close> of a header value, ...), or it returns a response. Of a
  response the connector reads the status (through \<open>raise_for_status\<close>, which also
  prints the reason and the URL) and \<open>json()\<close>.
\<close>

record 'j response =
  status_code :: int
  reason :: string
  response_url :: string
  json_body :: "'j json_result"

datatype 'j reply = RequestFailed string | OtherFailure string | Answered "'j response"

text \<open>\<open>Response.raise_for_status\<close>: the message of the \<open>HTTPError\<close> it raises, if any.\<close>

definition raise_for_status :: "'j response \<Rightarrow> string option" where
  "raise_for_status r =
     (if 400 \<le> status_code r \<and> status_code r < 500 then
        Some (str_int (status_code r) @ '' Client Error: '' @ reason r @ '' for url: '' @
              response_url r)
      else if 500 \<le> status_code r \<and> status_code r < 600 then
        Some (str_int (status_code r) @ '' Server Error: '' @ reason r @ '' for url: '' @
              response_url r)
      else None)"

text \<open>
  The world a call runs in: the clock reading, the interpreter's case mapping, and the
  network's answer to each call. What a call does to the world is its trace: reading the
  clock, calling the library, writing to the log. Its result is the returned value or
  the exception raised: a \<open>KeyError\<close>, the connector's \<open>FameexAPIException\<close>, or an
  exception of the library that the handler does not catch (\<open>Uncaught\<close>, with its
  description).
\<close>

record 'j world =
  clock :: int
  unicode_upper :: "string \<Rightarrow> string"
  network :: "http_call \<Rightarrow> 'j reply"

datatype event = ReadClock | Sent http_call | Logged string

datatype error = KeyError string | FameexAPIException string | Uncaught string

record 'j outcome =
  trace :: "event list"
  result :: "error + 'j"

definition BASE_URL :: string where
  "BASE_URL = ''https://openapi.fameex.net''"

definition CONTENT_TYPE :: string where
  "CONTENT_TYPE = ''application/json''"

text \<open>The \<open>except RequestException\<close> handler: log, then raise \<open>FameexAPIException\<close>.\<close>

definition api_failure :: "event list \<Rightarrow> string \<Rightarrow> 'j outcome" where
  "api_failure evs e =
     \<lparr>trace = evs @ [Logged (''API request failed: '' @ e)],
      result = Inl (FameexAPIException (''API request failed: '' @ e))\<rparr>"

text \<open>
  \<open>send_request\<close> takes \<open>Optional[Dict]\<close> and hands it on to the signer. The handler is
  \<open>except RequestException\<close>: any other exception of the library leaves the function
  as it is, with nothing logged.
\<close>

fun as_body :: "pydict option \<Rightarrow> body" where
  "as_body None = NoBody"
| "as_body (Some d) = DictBody d"

definition send_request ::
  "'j world \<Rightarrow> string \<Rightarrow> string \<Rightarrow> pydict option \<Rightarrow> string \<Rightarrow> string \<Rightarrow> 'j outcome" where
  "send_request w method request_path body api_key api_secret =
     (let signer = SignatureGenerator_init api_key api_secret;
          request_path =
            (case body of
               Some d \<Rightarrow>
                 if method = ''GET'' \<and> d \<noteq> [] then request_path @ ''?'' @ urlencode d
                 else request_path
             | None \<Rightarrow> request_path);
          signature_data =
            generate_signature signer (unicode_upper w) (clock w) method request_path
              (as_body body);
          headers =
            [(''X-CH-APIKEY'', api_key),
             (''X-CH-TS'', timestamp signature_data),
             (''X-CH-SIGN'', signature signature_data),
             (''Content-Type'', CONTENT_TYPE)];
          url = BASE_URL @ request_path;
          call =
            (if method = ''POST'' then
               \<lparr>call_verb = ''POST'', call_url = url, call_headers = headers, call_json = body\<rparr>
             else
               \<lparr>call_verb = ''GET'', call_url = url, call_headers = headers, call_json = None\<rparr>);
          evs = [ReadClock, Sent call]
      in case network w call of
           RequestFailed e \<Rightarrow> api_failure evs e
         | OtherFailure e \<Rightarrow> \<lparr>trace = evs, result = Inl (Uncaught e)\<rparr>
         | Answered response \<Rightarrow>
             (case raise_for_status response of
                Some e \<Rightarrow> api_failure evs e
              | None \<Rightarrow>
                  (case json_body response of
                     Parsed v \<Rightarrow> \<lparr>trace = evs, result = Inr v\<rparr>
                   | JSONDecodeError e \<Rightarrow> api_failure evs e
                   | OtherJSONError e \<Rightarrow> \<lparr>trace = evs, result = Inl (Uncaught e)\<rparr>)))"

section \<open>OrderManager and AssetManager\<close>

text \<open>
  Both classes hold the key and the secret as given. \<open>d[k]\<close> raises \<open>KeyError(k)\<close> on a
  missing key; a dict display evaluates its values from left to right, so the first
  missing key is the one reported, and nothing after it runs.
\<close>

record credentials =
  api_key :: string
  api_secret :: string

definition getitem :: "(string \<rightharpoonup> pyval) \<Rightarrow> string \<Rightarrow> error + pyval" where
  "getitem d k = (case d k of None \<Rightarrow> Inl (KeyError k) | Some v \<Rightarrow> Inr v)"

fun dict_display :: "(string \<times> (error + pyval)) list \<Rightarrow> error + pydict" where
  "dict_display [] = Inr []"
| "dict_display ((k, Inl e) # rest) = Inl e"
| "dict_display ((k, Inr v) # rest) =
     (case dict_display rest of Inl e \<Rightarrow> Inl e | Inr d \<Rightarrow> Inr ((k, v) # d))"

definition raised :: "error \<Rightarrow> 'j outcome" where
  "raised e = \<lparr>trace = [], result = Inl e\<rparr>"

definition place_order :: "'j world \<Rightarrow> credentials \<Rightarrow> (string \<rightharpoonup> pyval) \<Rightarrow> 'j outcome" where
  "place_order w self order =
     (let method = ''POST'';
          request_path = ''/sapi/v1/order''
      in case dict_display
                [(''symbol'', getitem order ''symbol''),
                 (''volume'', getitem order ''volume''),
                 (''side'', getitem order ''side''),
                 (''type'', getitem order ''type''),
                 (''price'', getitem order ''price'')] of
           Inl e \<Rightarrow> raised e
         | Inr body \<Rightarrow>
             send_request w method request_path (Some body) (api_key self) (api_secret self))"

definition cancel_order :: "'j world \<Rightarrow> credentials \<Rightarrow> (string \<rightharpoonup> pyval) \<Rightarrow> 'j outcome" where
  "cancel_order w self order =
     (let method = ''POST'';
          request_path = ''/sapi/v1/cancel''
      in case dict_display
                [(''symbol'', getitem order ''symbol''),
                 (''orderId'', getitem order ''order_id'')] of
           Inl e \<Rightarrow> raised e
         | Inr body \<Rightarrow>
             send_request w method request_path (Some body) (api_key self) (api_secret self))"

definition open_orders :: "'j world \<Rightarrow> credentials \<Rightarrow> (string \<rightharpoonup> pyval) \<Rightarrow> 'j outcome" where
  "open_orders w self params =
     (let method = ''GET'';
          request_path = ''/sapi/v1/openOrders''
      in case dict_display
                [(''symbol'', getitem params ''symbol''),
                 (''limit'', getitem params ''limit'')] of
           Inl e \<Rightarrow> raised e
         | Inr body \<Rightarrow>
             send_request w method request_path (Some body) (api_key self) (api_secret self))"

definition balance :: "'j world \<Rightarrow> credentials \<Rightarrow> 'j outcome" where
  "balance w self =
     (let method = ''GET'';
          request_path = ''/sapi/v1/account'';
          body = []
      in send_request w method request_path (Some body) (api_key self) (api_secret self))"

definition account_balance :: "'j world \<Rightarrow> credentials \<Rightarrow> (string \<rightharpoonup> pyval) \<Rightarrow> 'j outcome" where
  "account_balance w self params =
     (let method = ''GET'';
          request_path = ''/sapi/v1/account/balance''
      in case dict_display [(''symbols'', getitem params ''symbols'')] of
           Inl e \<Rightarrow> raised e
         | Inr body \<Rightarrow>
             send_request w method request_path (Some body) (api_key self) (api_secret self))"

text \<open>The library calls in a trace, in order.\<close>

fun sent :: "event list \<Rightarrow> http_call list" where
  "sent [] = []"
| "sent (Sent c # evs) = c # sent evs"
| "sent (e # evs) = sent evs"

section \<open>Evaluation of the library models\<close>

lemmas text_eval =
  upper_def is_ascii_def upper_char_def str_int_def str_nat.simps digit_char_def hex_lower_def
  hex_upper_def

lemmas library_eval =
  urlencode_def quote_plus_def quote_plus_char_def always_safe_def percent_byte_def
  json_dumps_def json_str_def json_escape_char_def

lemma upper_GET: "upper U ''GET'' = ''GET''"
  by (simp add: text_eval)

lemma upper_POST: "upper U ''POST'' = ''POST''"
  by (simp add: text_eval)

lemma upper_post: "upper U ''post'' = ''POST''"
  by (simp add: text_eval)

lemma str_int_scenario: "str_int 1700000000000 = ''1700000000000''"
  by (simp add: text_eval)

lemma urlencode_scenario:
  "urlencode [(''symbol'', PStr ''enausdt''), (''limit'', PInt 20)] = ''symbol=enausdt&limit=20''"
  by (simp add: text_eval library_eval)

lemma json_dumps_empty: "json_dumps [] = ''{}''"
  by (simp add: library_eval)

lemma json_dumps_scenario:
  \<open>json_dumps
     [(''symbol'', PStr ''ENAUSDT''), (''volume'', PInt 10), (''side'', PStr ''BUY''),
      (''type'', PStr ''LIMIT''), (''price'', PFloat ''0.8374'')] =
   ''{"symbol": "ENAUSDT", "volume": 10, "side": "BUY", "type": "LIMIT", "price": 0.8374}''\<close>
  by (simp add: text_eval library_eval)

lemma json_dumps_not_empty: "json_dumps d \<noteq> []"
  by (simp add: json_dumps_def)

section \<open>The signature\<close>

text \<open>
  C1. For every secret, method, path and body, and every clock reading, the signature is
  the lower-case hexadecimal HMAC-SHA256, keyed with the bytes of the secret, of the
  timestamp followed by the upper-cased method and the path, and by the body's
  serialisation only when the method is \<open>POST\<close> (the test the code makes is on the
  upper-cased method) and the body is not empty: \<open>json.dumps\<close> of a mapping, a string as
  it is. The returned timestamp is the clock reading in decimal. The method is any text,
  upper-cased as Python does it, with the interpreter's case mapping \<open>U\<close> where it is not
  ASCII. For the method \<open>POST\<close> itself the signed text is the timestamp, \<open>POST\<close>, the
  path and the serialisation of a non-empty body; for \<open>GET\<close> it is the timestamp, \<open>GET\<close>
  and the path, whatever the body. In particular, for secret \<open>abc\<close>, clock
  \<open>1700000000000\<close>, \<open>GET\<close> and \<open>/sapi/v1/account\<close>, the signed text is
  \<open>1700000000000GET/sapi/v1/account\<close>.
\<close>

theorem generate_signature_hmac:
  "generate_signature (SignatureGenerator_init key secret) U t method path body =
     \<lparr>signature =
        hexdigest (hmac_sha256 (encode_utf8 secret)
          (encode_utf8
            (str_int t @ upper U method @ path @
             (if upper U method = ''POST'' then
                (case body of
                   DictBody d \<Rightarrow> if d = [] then [] else json_dumps d
                 | StrBody s \<Rightarrow> s
                 | NoBody \<Rightarrow> [])
              else [])))),
      timestamp = str_int t\<rparr>
   \<and> generate_signature (SignatureGenerator_init key secret) U t ''POST'' path body =
     \<lparr>signature =
        hexdigest (hmac_sha256 (encode_utf8 secret)
          (encode_utf8
            (str_int t @ ''POST'' @ path @
             (case body of
                DictBody d \<Rightarrow> if d = [] then [] else json_dumps d
              | StrBody s \<Rightarrow> s
              | NoBody \<Rightarrow> [])))),
      timestamp = str_int t\<rparr>
   \<and> generate_signature (SignatureGenerator_init key secret) U t ''GET'' path body =
     \<lparr>signature =
        hexdigest (hmac_sha256 (encode_utf8 secret) (encode_utf8 (str_int t @ ''GET'' @ path))),
      timestamp = str_int t\<rparr>
   \<and> generate_signature (SignatureGenerator_init key ''abc'') U 1700000000000 ''GET''
       ''/sapi/v1/account'' NoBody =
     \<lparr>signature =
        hexdigest (hmac_sha256 (encode_utf8 ''abc'')
          (encode_utf8 ''1700000000000GET/sapi/v1/account'')),
      timestamp = ''1700000000000''\<rparr>"
proof (intro conjI)
  show "generate_signature (SignatureGenerator_init key secret) U t method path body =
     \<lparr>signature =
        hexdigest (hmac_sha256 (encode_utf8 secret)
          (encode_utf8
            (str_int t @ upper U method @ path @
             (if upper U method = ''POST'' then
                (case body of
                   DictBody d \<Rightarrow> if d = [] then [] else json_dumps d
                 | StrBody s \<Rightarrow> s
                 | NoBody \<Rightarrow> [])
              else [])))),
      timestamp = str_int t\<rparr>"
    by (cases body) (simp_all add: generate_signature_def SignatureGenerator_init_def Let_def)
next
  show "generate_signature (SignatureGenerator_init key secret) U t ''POST'' path body =
     \<lparr>signature =
        hexdigest (hmac_sha256 (encode_utf8 secret)
          (encode_utf8
            (str_int t @ ''POST'' @ path @
             (case body of
                DictBody d \<Rightarrow> if d = [] then [] else json_dumps d
              | StrBody s \<Rightarrow> s
              | NoBody \<Rightarrow> [])))),
      timestamp = str_int t\<rparr>"
    by (cases body)
      (simp_all add: generate_signature_def SignatureGenerator_init_def Let_def upper_POST)
next
  show "generate_signature (SignatureGenerator_init key secret) U t ''GET'' path body =
     \<lparr>signature =
        hexdigest (hmac_sha256 (encode_utf8 secret) (encode_utf8 (str_int t @ ''GET'' @ path))),
      timestamp = str_int t\<rparr>"
    by (simp add: generate_signature_def SignatureGenerator_init_def Let_def upper_GET)
next
  show "generate_signature (SignatureGenerator_init key ''abc'') U 1700000000000 ''GET''
       ''/sapi/v1/account'' NoBody =
     \<lparr>signature =
        hexdigest (hmac_sha256 (encode_utf8 ''abc'')
          (encode_utf8 ''1700000000000GET/sapi/v1/account'')),
      timestamp = ''1700000000000''\<rparr>"
    by (simp add: generate_signature_def SignatureGenerator_init_def Let_def
        str_int_scenario upper_GET)
qed

text \<open>
  C8. Two runs of signature generation, in one interpreter, with the same secret, clock
  reading, method, path and body give the same signature and timestamp: the result
  depends on nothing else, not even on the API key the generator holds.
\<close>

theorem generate_signature_deterministic:
  "sg_api_secret sg = sg_api_secret sg' \<Longrightarrow> t = t' \<Longrightarrow> method = method' \<Longrightarrow>
   path = path' \<Longrightarrow> body = body' \<Longrightarrow>
   generate_signature sg U t method path body =
     generate_signature sg' U t' method' path' body'"
  by (simp add: generate_signature_def)

theorem generate_signature_deterministic_witness:
  "generate_signature \<lparr>sg_api_key = ''key-1'', sg_api_secret = encode_utf8 ''abc''\<rparr>
     (\<lambda>s. s) 1700000000000 ''GET'' ''/sapi/v1/account'' NoBody =
   generate_signature \<lparr>sg_api_key = ''key-2'', sg_api_secret = encode_utf8 ''abc''\<rparr>
     (\<lambda>s. s) 1700000000000 ''GET'' ''/sapi/v1/account'' NoBody"
  using generate_signature_deterministic
    [of "\<lparr>sg_api_key = ''key-1'', sg_api_secret = encode_utf8 ''abc''\<rparr>"
        "\<lparr>sg_api_key = ''key-2'', sg_api_secret = encode_utf8 ''abc''\<rparr>"
        1700000000000 1700000000000 "''GET''" "''GET''" "''/sapi/v1/account''"
        "''/sapi/v1/account''" NoBody NoBody "\<lambda>s. s"]
  by simp

section \<open>What send_request does\<close>

text \<open>
  One call of \<open>send_request\<close> reads the clock, makes one call into the library and, when
  the handler catches what that raises, writes one line to the log. The lemma names the
  call and the result.
\<close>

lemma timestamp_generate_signature:
  "timestamp (generate_signature sg U t method p b) = str_int t"
  by (simp add: generate_signature_def Let_def)

lemma send_request_unfold:
  assumes "p' =
      (case body of
         Some d \<Rightarrow> if method = ''GET'' \<and> d \<noteq> [] then path @ ''?'' @ urlencode d else path
       | None \<Rightarrow> path)"
    and "c =
      \<lparr>call_verb = (if method = ''POST'' then ''POST'' else ''GET''),
       call_url = BASE_URL @ p',
       call_headers =
         [(''X-CH-APIKEY'', key),
          (''X-CH-TS'', str_int (clock w)),
          (''X-CH-SIGN'',
           signature
             (generate_signature (SignatureGenerator_init key secret) (unicode_upper w)
                (clock w) method p' (as_body body))),
          (''Content-Type'', ''application/json'')],
       call_json = (if method = ''POST'' then body else None)\<rparr>"
  shows "sent (trace (send_request w method path body key secret)) = [c]"
    and "take 2 (trace (send_request w method path body key secret)) = [ReadClock, Sent c]"
    and "result (send_request w method path body key secret) =
      (case network w c of
         RequestFailed e \<Rightarrow> Inl (FameexAPIException (''API request failed: '' @ e))
       | OtherFailure e \<Rightarrow> Inl (Uncaught e)
       | Answered r \<Rightarrow>
           (case raise_for_status r of
              Some e \<Rightarrow> Inl (FameexAPIException (''API request failed: '' @ e))
            | None \<Rightarrow>
                (case json_body r of
                   Parsed v \<Rightarrow> Inr v
                 | JSONDecodeError e \<Rightarrow>
                     Inl (FameexAPIException (''API request failed: '' @ e))
                 | OtherJSONError e \<Rightarrow> Inl (Uncaught e))))"
    and "trace (send_request w method path body key secret) =
      [ReadClock, Sent c] @
      (case result (send_request w method path body key secret) of
         Inl (FameexAPIException msg) \<Rightarrow> [Logged msg]
       | _ \<Rightarrow> [])"
  using assms
  by (simp_all add: send_request_def Let_def api_failure_def CONTENT_TYPE_def
      timestamp_generate_signature split: reply.splits option.splits json_result.splits)

lemma signature_GET:
  "signature (generate_signature (SignatureGenerator_init key secret) U t ''GET'' p b) =
     hexdigest (hmac_sha256 (encode_utf8 secret) (encode_utf8 (str_int t @ ''GET'' @ p)))"
  by (simp add: generate_signature_def SignatureGenerator_init_def Let_def upper_GET)

lemma signature_upper_POST:
  "upper U method = ''POST'' \<Longrightarrow> d \<noteq> [] \<Longrightarrow>
   signature
     (generate_signature (SignatureGenerator_init key secret) U t method p (DictBody d)) =
     hexdigest (hmac_sha256 (encode_utf8 secret)
       (encode_utf8 (str_int t @ ''POST'' @ p @ json_dumps d)))"
  by (simp add: generate_signature_def SignatureGenerator_init_def Let_def)

lemma signature_POST_empty:
  "signature
     (generate_signature (SignatureGenerator_init key secret) U t ''POST'' p (DictBody [])) =
     hexdigest (hmac_sha256 (encode_utf8 secret) (encode_utf8 (str_int t @ ''POST'' @ p)))"
  by (simp add: generate_signature_def SignatureGenerator_init_def Let_def upper_POST)

text \<open>
  C2. A GET with a non-empty body mapping: the URL-encoded query string is appended to
  the path before the signature is generated, the request goes to the path with the
  query string, and the signature is over the timestamp, \<open>GET\<close> and that same path with
  the query string.
\<close>

theorem get_query_is_signed:
  assumes "d \<noteq> []"
  shows "sent (trace (send_request w ''GET'' path (Some d) key secret)) =
     [\<lparr>call_verb = ''GET'',
       call_url = BASE_URL @ path @ ''?'' @ urlencode d,
       call_headers =
         [(''X-CH-APIKEY'', key),
          (''X-CH-TS'', str_int (clock w)),
          (''X-CH-SIGN'',
           hexdigest (hmac_sha256 (encode_utf8 secret)
             (encode_utf8 (str_int (clock w) @ ''GET'' @ path @ ''?'' @ urlencode d)))),
          (''Content-Type'', ''application/json'')],
       call_json = None\<rparr>]"
  using assms send_request_unfold(1) [OF refl refl, of w "''GET''" path "Some d" key secret]
  by (simp add: signature_GET)

theorem get_query_is_signed_witness:
  "sent (trace (open_orders
      \<lparr>clock = 1700000000000, unicode_upper = \<lambda>s. s,
       network = \<lambda>c. (RequestFailed ''offline'' :: string reply)\<rparr>
      \<lparr>api_key = ''k'', api_secret = ''abc''\<rparr>
      [''symbol'' \<mapsto> PStr ''enausdt'', ''limit'' \<mapsto> PInt 20])) =
     [\<lparr>call_verb = ''GET'',
       call_url = ''https://openapi.fameex.net/sapi/v1/openOrders?symbol=enausdt&limit=20'',
       call_headers =
         [(''X-CH-APIKEY'', ''k''),
          (''X-CH-TS'', ''1700000000000''),
          (''X-CH-SIGN'',
           hexdigest (hmac_sha256 (encode_utf8 ''abc'')
             (encode_utf8 ''1700000000000GET/sapi/v1/openOrders?symbol=enausdt&limit=20''))),
          (''Content-Type'', ''application/json'')],
       call_json = None\<rparr>]"
  using get_query_is_signed
    [of "[(''symbol'', PStr ''enausdt''), (''limit'', PInt 20)]"
        "\<lparr>clock = 1700000000000, unicode_upper = \<lambda>s. s,
       network = \<lambda>c. (RequestFailed ''offline'' :: string reply)\<rparr>"
        "''/sapi/v1/openOrders''" "''k''" "''abc''"]
  by (simp add: open_orders_def getitem_def urlencode_scenario str_int_scenario BASE_URL_def)

lemma signature_as_body:
  "signature
     (generate_signature (SignatureGenerator_init key secret) U t method p (as_body body)) =
   hexdigest (hmac_sha256 (encode_utf8 secret)
     (encode_utf8
       (str_int t @ upper U method @ p @
        (case body of
           Some d \<Rightarrow> if upper U method = ''POST'' \<and> d \<noteq> [] then json_dumps d else []
         | None \<Rightarrow> []))))"
  by (cases body) (simp_all add: generate_signature_def SignatureGenerator_init_def Let_def)

lemma upper_POST_not_GET: "upper U method = ''POST'' \<Longrightarrow> method \<noteq> ''GET''"
  using upper_GET [of U] by auto

text \<open>
  C3, as amended. A POST with a non-empty body mapping: the text appended to the signing
  payload is \<open>json.dumps\<close> of the body, and the bytes the library puts on the wire are
  the UTF-8 encoding of that same text.
\<close>

theorem post_body_signed_as_sent:
  assumes "d \<noteq> []"
  shows "map wire_body (sent (trace (send_request w ''POST'' path (Some d) key secret))) =
       [Some (encode_utf8 (json_dumps d))]
     \<and> map (\<lambda>c. map_of (call_headers c) ''X-CH-SIGN'')
         (sent (trace (send_request w ''POST'' path (Some d) key secret))) =
       [Some (hexdigest (hmac_sha256 (encode_utf8 secret)
          (encode_utf8 (str_int (clock w) @ ''POST'' @ path @ json_dumps d))))]"
  using assms send_request_unfold(1) [OF refl refl, of w "''POST''" path "Some d" key secret]
  by (simp add: wire_body_def signature_upper_POST upper_POST)

theorem post_body_signed_as_sent_witness:
  \<open>map wire_body (sent (trace (send_request
      \<lparr>clock = 1700000000000, unicode_upper = \<lambda>s. s,
       network = \<lambda>c. (RequestFailed ''offline'' :: string reply)\<rparr>
      ''POST'' ''/sapi/v1/order''
      (Some [(''symbol'', PStr ''ENAUSDT''), (''volume'', PInt 10), (''side'', PStr ''BUY''),
             (''type'', PStr ''LIMIT''), (''price'', PFloat ''0.8374'')])
      ''k'' ''abc''))) =
     [Some (encode_utf8
        ''{"symbol": "ENAUSDT", "volume": 10, "side": "BUY", "type": "LIMIT", "price": 0.8374}'')]
   \<and> map (\<lambda>c. map_of (call_headers c) ''X-CH-SIGN'') (sent (trace (send_request
      \<lparr>clock = 1700000000000, unicode_upper = \<lambda>s. s,
       network = \<lambda>c. (RequestFailed ''offline'' :: string reply)\<rparr>
      ''POST'' ''/sapi/v1/order''
      (Some [(''symbol'', PStr ''ENAUSDT''), (''volume'', PInt 10), (''side'', PStr ''BUY''),
             (''type'', PStr ''LIMIT''), (''price'', PFloat ''0.8374'')])
      ''k'' ''abc''))) =
     [Some (hexdigest (hmac_sha256 (encode_utf8 ''abc'')
        (encode_utf8
          (''1700000000000POST/sapi/v1/order'' @
           ''{"symbol": "ENAUSDT", "volume": 10, "side": "BUY", "type": "LIMIT", "price": 0.8374}''))))]\<close>
  using post_body_signed_as_sent
    [of "[(''symbol'', PStr ''ENAUSDT''), (''volume'', PInt 10), (''side'', PStr ''BUY''),
          (''type'', PStr ''LIMIT''), (''price'', PFloat ''0.8374'')]"
        "\<lparr>clock = 1700000000000, unicode_upper = \<lambda>s. s,
       network = \<lambda>c. (RequestFailed ''offline'' :: string reply)\<rparr>"
        "''/sapi/v1/order''" "''k''" "''abc''"]
  by (simp add: json_dumps_scenario str_int_scenario)

text \<open>
  C3 as stated fails for the empty mapping: nothing is appended to the signing payload
  (the signature is over the timestamp, \<open>POST\<close> and the path), while the library is
  given the empty mapping as \<open>json\<close> and puts the two bytes \<open>{}\<close> on the wire.
\<close>

theorem post_empty_mapping_counterexample:
  "map wire_body (sent (trace (send_request
      \<lparr>clock = 1700000000000, unicode_upper = \<lambda>s. s,
       network = \<lambda>c. (RequestFailed ''offline'' :: string reply)\<rparr>
      ''POST'' ''/sapi/v1/order'' (Some []) ''k'' ''abc''))) =
     [Some (encode_utf8 ''{}'')]
   \<and> map (\<lambda>c. map_of (call_headers c) ''X-CH-SIGN'') (sent (trace (send_request
      \<lparr>clock = 1700000000000, unicode_upper = \<lambda>s. s,
       network = \<lambda>c. (RequestFailed ''offline'' :: string reply)\<rparr>
      ''POST'' ''/sapi/v1/order'' (Some []) ''k'' ''abc''))) =
     [Some (hexdigest (hmac_sha256 (encode_utf8 ''abc'')
        (encode_utf8 (''1700000000000POST/sapi/v1/order'' @ ''''))))]
   \<and> encode_utf8 ''{}'' \<noteq> encode_utf8 ''''"
  using send_request_unfold(1) [OF refl refl,
      of "\<lparr>clock = 1700000000000, unicode_upper = \<lambda>s. s,
       network = \<lambda>c. (RequestFailed ''offline'' :: string reply)\<rparr>"
         "''POST''" "''/sapi/v1/order''" "Some []" "''k''" "''abc''"]
  by (simp add: wire_body_def signature_POST_empty json_dumps_empty str_int_scenario
      encode_utf8_def)

text \<open>
  C6. The library is called with exactly four headers: \<open>X-CH-APIKEY\<close> with the API key
  as given, \<open>X-CH-TS\<close> with the timestamp, \<open>X-CH-SIGN\<close> with the hexadecimal HMAC-SHA256
  signature, and \<open>Content-Type: application/json\<close>. The secret is used as the HMAC key
  and nowhere else: with another secret the call is the same (method, URL, body and the
  other three headers), only the value of \<open>X-CH-SIGN\<close> changes.
\<close>

theorem headers_and_secret:
  "map call_headers (sent (trace (send_request w method path body key secret))) =
     [[(''X-CH-APIKEY'', key),
       (''X-CH-TS'', str_int (clock w)),
       (''X-CH-SIGN'',
        hexdigest (hmac_sha256 (encode_utf8 secret)
          (encode_utf8
            (str_int (clock w) @ upper (unicode_upper w) method @ path @
             (case body of
                Some d \<Rightarrow> if method = ''GET'' \<and> d \<noteq> [] then ''?'' @ urlencode d else []
              | None \<Rightarrow> []) @
             (case body of
                Some d \<Rightarrow>
                  if upper (unicode_upper w) method = ''POST'' \<and> d \<noteq> [] then json_dumps d
                  else []
              | None \<Rightarrow> []))))),
       (''Content-Type'', ''application/json'')]]
   \<and> map (\<lambda>c. (call_verb c, call_url c,
                 filter (\<lambda>h. fst h \<noteq> ''X-CH-SIGN'') (call_headers c), call_json c))
         (sent (trace (send_request w method path body key secret))) =
       map (\<lambda>c. (call_verb c, call_url c,
                 filter (\<lambda>h. fst h \<noteq> ''X-CH-SIGN'') (call_headers c), call_json c))
         (sent (trace (send_request w method path body key secret')))"
proof -
  define p' where "p' =
      (case body of
         Some d \<Rightarrow> if method = ''GET'' \<and> d \<noteq> [] then path @ ''?'' @ urlencode d else path
       | None \<Rightarrow> path)"
  have p': "p' = path @
      (case body of
         Some d \<Rightarrow> if method = ''GET'' \<and> d \<noteq> [] then ''?'' @ urlencode d else []
       | None \<Rightarrow> [])"
    by (simp add: p'_def split: option.splits)
  note s = send_request_unfold(1) [OF p'_def refl, of w key secret]
  note s' = send_request_unfold(1) [OF p'_def refl, of w key secret']
  show ?thesis
    by (simp add: s s' signature_as_body p')
qed

text \<open>
  C9. A method that is not \<open>POST\<close> but is \<open>POST\<close> in upper case (such as \<open>post\<close>), with a
  non-empty body mapping: the signature covers the serialised body, while the request
  made is a GET of the bare path with no body.
\<close>

theorem lowercase_post_diverges:
  assumes "method \<noteq> ''POST''" and "upper (unicode_upper w) method = ''POST''" and "d \<noteq> []"
  shows "sent (trace (send_request w method path (Some d) key secret)) =
     [\<lparr>call_verb = ''GET'',
       call_url = BASE_URL @ path,
       call_headers =
         [(''X-CH-APIKEY'', key),
          (''X-CH-TS'', str_int (clock w)),
          (''X-CH-SIGN'',
           hexdigest (hmac_sha256 (encode_utf8 secret)
             (encode_utf8 (str_int (clock w) @ ''POST'' @ path @ json_dumps d)))),
          (''Content-Type'', ''application/json'')],
       call_json = None\<rparr>]
     \<and> map wire_body (sent (trace (send_request w method path (Some d) key secret))) = [None]"
  using assms upper_POST_not_GET [of "unicode_upper w" "method"]
    send_request_unfold(1) [OF refl refl, of w "method" "path" "Some d" key secret]
  by (simp add: wire_body_def signature_upper_POST)

theorem lowercase_post_diverges_witness:
  \<open>sent (trace (send_request
      \<lparr>clock = 1700000000000, unicode_upper = \<lambda>s. s,
       network = \<lambda>c. (RequestFailed ''offline'' :: string reply)\<rparr>
      ''post'' ''/sapi/v1/cancel''
      (Some [(''symbol'', PStr ''enausdt''), (''orderId'', PStr ''2602461198832870824'')])
      ''k'' ''abc'')) =
     [\<lparr>call_verb = ''GET'',
       call_url = ''https://openapi.fameex.net/sapi/v1/cancel'',
       call_headers =
         [(''X-CH-APIKEY'', ''k''),
          (''X-CH-TS'', ''1700000000000''),
          (''X-CH-SIGN'',
           hexdigest (hmac_sha256 (encode_utf8 ''abc'')
             (encode_utf8
               (''1700000000000POST/sapi/v1/cancel'' @
                ''{"symbol": "enausdt", "orderId": "2602461198832870824"}'')))),
          (''Content-Type'', ''application/json'')],
       call_json = None\<rparr>]
   \<and> map wire_body (sent (trace (send_request
      \<lparr>clock = 1700000000000, unicode_upper = \<lambda>s. s,
       network = \<lambda>c. (RequestFailed ''offline'' :: string reply)\<rparr>
      ''post'' ''/sapi/v1/cancel''
      (Some [(''symbol'', PStr ''enausdt''), (''orderId'', PStr ''2602461198832870824'')])
      ''k'' ''abc''))) = [None]\<close>
  using lowercase_post_diverges
    [of "''post''"
        "\<lparr>clock = 1700000000000, unicode_upper = \<lambda>s. s,
       network = \<lambda>c. (RequestFailed ''offline'' :: string reply)\<rparr>"
        "[(''symbol'', PStr ''enausdt''), (''orderId'', PStr ''2602461198832870824'')]"
        "''/sapi/v1/cancel''" "''k''" "''abc''"]
  by (simp add: upper_post str_int_scenario BASE_URL_def wire_body_def text_eval library_eval)

section \<open>Outcomes and errors\<close>

text \<open>
  C4, as amended. Every call of \<open>send_request\<close> reads the clock, makes one call into the
  library, and then either returns a value or raises an error; nothing else happens,
  and nothing is tried again. When the library raises a \<open>RequestException\<close> (a
  network-level failure: connection error, timeout, ...) and when the status is from 400
  to 599, the call logs and raises \<open>FameexAPIException\<close> with the message
  \<open>API request failed:\<close> followed by the cause. On every other status, 2xx or not, it
  returns the parsed JSON as it is when the body parses. When the body does not parse,
  the error is \<open>FameexAPIException\<close> if the library reports a \<open>RequestException\<close>, and
  the library's own exception otherwise; an exception of the library that is not a
  \<open>RequestException\<close> is raised as it is, and not logged.
\<close>

theorem send_request_outcome:
  "\<exists>c. sent (trace (send_request w method path body key secret)) = [c] \<and>
     result (send_request w method path body key secret) =
       (case network w c of
          RequestFailed e \<Rightarrow> Inl (FameexAPIException (''API request failed: '' @ e))
        | OtherFailure e \<Rightarrow> Inl (Uncaught e)
        | Answered r \<Rightarrow>
            if 400 \<le> status_code r \<and> status_code r < 600 then
              Inl (FameexAPIException
                (''API request failed: '' @ str_int (status_code r) @
                 (if status_code r < 500 then '' Client Error: '' else '' Server Error: '') @
                 reason r @ '' for url: '' @ response_url r))
            else
              (case json_body r of
                 Parsed v \<Rightarrow> Inr v
               | JSONDecodeError e \<Rightarrow>
                   Inl (FameexAPIException (''API request failed: '' @ e))
               | OtherJSONError e \<Rightarrow> Inl (Uncaught e))) \<and>
     trace (send_request w method path body key secret) =
       [ReadClock, Sent c] @
       (case result (send_request w method path body key secret) of
          Inl (FameexAPIException msg) \<Rightarrow> [Logged msg]
        | _ \<Rightarrow> []) \<and>
     ((\<exists>v. result (send_request w method path body key secret) = Inr v) \<or>
      (\<exists>e. result (send_request w method path body key secret) =
         Inl (FameexAPIException (''API request failed: '' @ e))) \<or>
      (\<exists>e. result (send_request w method path body key secret) = Inl (Uncaught e)))"
proof -
  define p' where "p' =
      (case body of
         Some d \<Rightarrow> if method = ''GET'' \<and> d \<noteq> [] then path @ ''?'' @ urlencode d else path
       | None \<Rightarrow> path)"
  define c where "c =
      \<lparr>call_verb = (if method = ''POST'' then ''POST'' else ''GET''),
       call_url = BASE_URL @ p',
       call_headers =
         [(''X-CH-APIKEY'', key),
          (''X-CH-TS'', str_int (clock w)),
          (''X-CH-SIGN'',
           signature
             (generate_signature (SignatureGenerator_init key secret) (unicode_upper w)
                (clock w) method p' (as_body body))),
          (''Content-Type'', ''application/json'')],
       call_json = (if method = ''POST'' then body else None)\<rparr>"
  note s = send_request_unfold(1) [OF p'_def c_def]
  note r = send_request_unfold(3) [OF p'_def c_def]
  note t = send_request_unfold(4) [OF p'_def c_def]
  have "result (send_request w method path body key secret) =
       (case network w c of
          RequestFailed e \<Rightarrow> Inl (FameexAPIException (''API request failed: '' @ e))
        | OtherFailure e \<Rightarrow> Inl (Uncaught e)
        | Answered r \<Rightarrow>
            if 400 \<le> status_code r \<and> status_code r < 600 then
              Inl (FameexAPIException
                (''API request failed: '' @ str_int (status_code r) @
                 (if status_code r < 500 then '' Client Error: '' else '' Server Error: '') @
                 reason r @ '' for url: '' @ response_url r))
            else
              (case json_body r of
                 Parsed v \<Rightarrow> Inr v
               | JSONDecodeError e \<Rightarrow>
                   Inl (FameexAPIException (''API request failed: '' @ e))
               | OtherJSONError e \<Rightarrow> Inl (Uncaught e)))"
    by (simp add: r raise_for_status_def split: reply.splits)
  moreover have "(\<exists>v. result (send_request w method path body key secret) = Inr v) \<or>
      (\<exists>e. result (send_request w method path body key secret) =
         Inl (FameexAPIException (''API request failed: '' @ e))) \<or>
      (\<exists>e. result (send_request w method path body key secret) = Inl (Uncaught e))"
    by (simp add: r split: reply.splits option.splits json_result.splits)
  ultimately show ?thesis
    using s t by blast
qed

text \<open>
  C4 as stated fails on a status that is not 2xx and not 4xx or 5xx: an answer with
  status 300 and a JSON body is returned to the caller as a value.
\<close>

theorem status_300_counterexample:
  "result (send_request
      \<lparr>clock = 1700000000000, unicode_upper = \<lambda>s. s,
       network = \<lambda>c. Answered
         \<lparr>status_code = 300, reason = ''Multiple Choices'', response_url = call_url c,
          json_body = Parsed ''parsed''\<rparr>\<rparr>
      ''GET'' ''/sapi/v1/account'' (Some []) ''k'' ''abc'') = Inr ''parsed''"
  by (simp add: send_request_def Let_def raise_for_status_def)

text \<open>
  C5. Given an order with the five fields, \<open>place_order\<close> makes one POST to
  \<open>/sapi/v1/order\<close> whose JSON body has exactly the fields symbol, volume, side, type
  and price, with the values of the order.
\<close>

theorem place_order_request:
  assumes "order ''symbol'' = Some sy" and "order ''volume'' = Some vo"
    and "order ''side'' = Some si" and "order ''type'' = Some ty"
    and "order ''price'' = Some pr"
  shows "map (\<lambda>c. (call_verb c, call_url c, call_json c))
       (sent (trace (place_order w self order))) =
     [(''POST'', ''https://openapi.fameex.net/sapi/v1/order'',
       Some [(''symbol'', sy), (''volume'', vo), (''side'', si), (''type'', ty),
             (''price'', pr)])]"
  using assms
    send_request_unfold(1) [OF refl refl, of w "''POST''" "''/sapi/v1/order''"
      "Some [(''symbol'', sy), (''volume'', vo), (''side'', si), (''type'', ty), (''price'', pr)]"
      "api_key self" "api_secret self"]
  by (simp add: place_order_def getitem_def BASE_URL_def)

theorem place_order_request_witness:
  \<open>map (\<lambda>c. (call_verb c, call_url c, call_json c, wire_body c))
     (sent (trace (place_order
        \<lparr>clock = 1700000000000, unicode_upper = \<lambda>s. s,
       network = \<lambda>c. (RequestFailed ''offline'' :: string reply)\<rparr>
        \<lparr>api_key = ''k'', api_secret = ''abc''\<rparr>
        [''symbol'' \<mapsto> PStr ''ENAUSDT'', ''volume'' \<mapsto> PInt 10, ''side'' \<mapsto> PStr ''BUY'',
         ''type'' \<mapsto> PStr ''LIMIT'', ''price'' \<mapsto> PFloat ''0.8374'']))) =
   [(''POST'', ''https://openapi.fameex.net/sapi/v1/order'',
     Some [(''symbol'', PStr ''ENAUSDT''), (''volume'', PInt 10), (''side'', PStr ''BUY''),
           (''type'', PStr ''LIMIT''), (''price'', PFloat ''0.8374'')],
     Some (encode_utf8
       ''{"symbol": "ENAUSDT", "volume": 10, "side": "BUY", "type": "LIMIT", "price": 0.8374}''))]\<close>
  using place_order_request
    [of "[''symbol'' \<mapsto> PStr ''ENAUSDT'', ''volume'' \<mapsto> PInt 10, ''side'' \<mapsto> PStr ''BUY'',
          ''type'' \<mapsto> PStr ''LIMIT'', ''price'' \<mapsto> PFloat ''0.8374'']"
        "PStr ''ENAUSDT''" "PInt 10" "PStr ''BUY''" "PStr ''LIMIT''" "PFloat ''0.8374''"
        "\<lparr>clock = 1700000000000, unicode_upper = \<lambda>s. s,
       network = \<lambda>c. (RequestFailed ''offline'' :: string reply)\<rparr>"
        "\<lparr>api_key = ''k'', api_secret = ''abc''\<rparr>"]
  by (auto simp: wire_body_def json_dumps_scenario)

text \<open>
  C10. When the argument lacks a required field, the operation raises \<open>KeyError\<close> for the
  first missing field, which is not \<open>FameexAPIException\<close>, and its trace is empty: the
  clock is not read (no signature is computed) and the library is not called.
\<close>

theorem missing_field_raises_KeyError:
  "(\<not> {''symbol'', ''volume'', ''side'', ''type'', ''price''} \<subseteq> dom order \<longrightarrow>
      place_order w self order =
        \<lparr>trace = [],
         result = Inl (KeyError (hd (filter (\<lambda>k. order k = None)
           [''symbol'', ''volume'', ''side'', ''type'', ''price''])))\<rparr>) \<and>
   (\<not> {''symbol'', ''order_id''} \<subseteq> dom order \<longrightarrow>
      cancel_order w self order =
        \<lparr>trace = [],
         result = Inl (KeyError (hd (filter (\<lambda>k. order k = None)
           [''symbol'', ''order_id''])))\<rparr>) \<and>
   (\<not> {''symbol'', ''limit''} \<subseteq> dom params \<longrightarrow>
      open_orders w self params =
        \<lparr>trace = [],
         result = Inl (KeyError (hd (filter (\<lambda>k. params k = None)
           [''symbol'', ''limit''])))\<rparr>) \<and>
   (\<not> {''symbols''} \<subseteq> dom params \<longrightarrow>
      account_balance w self params =
        \<lparr>trace = [], result = Inl (KeyError ''symbols'')\<rparr>)"
  by (auto simp: place_order_def cancel_order_def open_orders_def account_balance_def
      getitem_def raised_def dom_def split: option.splits)

theorem missing_field_raises_KeyError_witness:
  "place_order
      \<lparr>clock = 1700000000000, unicode_upper = \<lambda>s. s,
       network = \<lambda>c. (RequestFailed ''offline'' :: string reply)\<rparr>
      \<lparr>api_key = ''k'', api_secret = ''abc''\<rparr>
      [''symbol'' \<mapsto> PStr ''ENAUSDT'', ''side'' \<mapsto> PStr ''BUY'', ''type'' \<mapsto> PStr ''LIMIT''] =
     \<lparr>trace = [], result = Inl (KeyError ''volume'')\<rparr> \<and>
   cancel_order
      \<lparr>clock = 1700000000000, unicode_upper = \<lambda>s. s,
       network = \<lambda>c. (RequestFailed ''offline'' :: string reply)\<rparr>
      \<lparr>api_key = ''k'', api_secret = ''abc''\<rparr>
      [''symbol'' \<mapsto> PStr ''enausdt''] =
     \<lparr>trace = [], result = Inl (KeyError ''order_id'')\<rparr> \<and>
   open_orders
      \<lparr>clock = 1700000000000, unicode_upper = \<lambda>s. s,
       network = \<lambda>c. (RequestFailed ''offline'' :: string reply)\<rparr>
      \<lparr>api_key = ''k'', api_secret = ''abc''\<rparr>
      [''limit'' \<mapsto> PInt 20] =
     \<lparr>trace = [], result = Inl (KeyError ''symbol'')\<rparr> \<and>
   account_balance
      \<lparr>clock = 1700000000000, unicode_upper = \<lambda>s. s,
       network = \<lambda>c. (RequestFailed ''offline'' :: string reply)\<rparr>
      \<lparr>api_key = ''k'', api_secret = ''abc''\<rparr>
      Map.empty =
     \<lparr>trace = [], result = Inl (KeyError ''symbols'')\<rparr>"
  using missing_field_raises_KeyError
    [of "[''symbol'' \<mapsto> PStr ''ENAUSDT'', ''side'' \<mapsto> PStr ''BUY'', ''type'' \<mapsto> PStr ''LIMIT'']"
        "\<lparr>clock = 1700000000000, unicode_upper = \<lambda>s. s,
       network = \<lambda>c. (RequestFailed ''offline'' :: string reply)\<rparr>"
        "\<lparr>api_key = ''k'', api_secret = ''abc''\<rparr>"
        "[''limit'' \<mapsto> PInt 20]"]
    missing_field_raises_KeyError
    [of "[''symbol'' \<mapsto> PStr ''enausdt'']"
        "\<lparr>clock = 1700000000000, unicode_upper = \<lambda>s. s,
       network = \<lambda>c. (RequestFailed ''offline'' :: string reply)\<rparr>"
        "\<lparr>api_key = ''k'', api_secret = ''abc''\<rparr>"
        "Map.empty"]
  by simp

end
